theory Spec2Isabelle
  imports Complex_Main "HOL-Library.Monad_Syntax" "HOL-Library.Signed_Division"
begin

section \<open>Conventions\<close>

text \<open>
  The synthesizer computes on C++ \<open>float\<close> and \<open>double\<close>. Sample values and parameters
  are embedded as \<^typ>\<open>real\<close>: the arithmetic is the exact one, without rounding, NaN or
  infinities. C++ \<open>int\<close> is embedded as \<^typ>\<open>int\<close> and \<open>size_t\<close> as \<^typ>\<open>nat\<close>, both
  without overflow; the number of frames of a block is a \<^typ>\<open>nat\<close>. A \<open>std::vector\<close> is
  a list. An access outside a vector and an integer division or remainder by zero are
  undefined behaviour in C++; every function that can reach one returns an \<open>option\<close>
  and yields \<open>None\<close> there, or a sum and yields \<open>Inl\<close> with the error.
\<close>

subsection \<open>Vector access and integer operators\<close>

definition rd :: "'a list \<Rightarrow> int \<Rightarrow> 'a option" where
  \<comment> \<open>\<open>v[i]\<close> read\<close>
  "rd v i = (if 0 \<le> i \<and> i < int (length v) then Some (v ! nat i) else None)"

definition wr :: "'a list \<Rightarrow> int \<Rightarrow> 'a \<Rightarrow> 'a list option" where
  \<comment> \<open>\<open>v[i] = x\<close>\<close>
  "wr v i x = (if 0 \<le> i \<and> i < int (length v) then Some (v[nat i := x]) else None)"

definition cmod :: "int \<Rightarrow> int \<Rightarrow> int option" where
  \<comment> \<open>\<open>a % b\<close> on \<open>int\<close>: the remainder of the division truncated towards zero\<close>
  "cmod a b = (if b = 0 then None else Some (a smod b))"

definition to_int :: "real \<Rightarrow> int" where
  \<comment> \<open>\<open>static_cast<int>(x)\<close>: truncation towards zero\<close>
  "to_int x = (if 0 \<le> x then \<lfloor>x\<rfloor> else \<lceil>x\<rceil>)"

fun for_each :: "('s \<Rightarrow> 'a \<Rightarrow> ('b \<times> 's) option) \<Rightarrow> 's \<Rightarrow> 'a list \<Rightarrow> ('b list \<times> 's) option" where
  \<comment> \<open>\<open>for (i = 0; i < n; ++i) out[i] = step(in[i])\<close>, the state \<open>s\<close> threaded through\<close>
  "for_each step s [] = Some ([], s)"
| "for_each step s (x # xs) =
     (case step s x of
        None \<Rightarrow> None
      | Some (y, s') \<Rightarrow>
          (case for_each step s' xs of
             None \<Rightarrow> None
           | Some (ys, s'') \<Rightarrow> Some (y # ys, s'')))"

fun generate :: "('s \<Rightarrow> 'b \<times> 's) \<Rightarrow> 's \<Rightarrow> nat \<Rightarrow> 'b list \<times> 's" where
  \<comment> \<open>\<open>for (i = 0; i < n; ++i) out[i] = next()\<close>\<close>
  "generate next s 0 = ([], s)"
| "generate next s (Suc n) =
     (case next s of (y, s') \<Rightarrow> (case generate next s' n of (ys, s'') \<Rightarrow> (y # ys, s'')))"

subsection \<open>Common.h\<close>

text \<open>
  Modelled from the spec: \<open>Common.h\<close> is not among the sources. It declares \<open>clamp\<close>,
  \<open>clampSample\<close>, \<open>TWO_PI\<close>, the enumerations \<open>Waveform\<close> and \<open>PitchEnvelopeMode\<close>,
  \<open>AudioParameter<T>\<close> and \<open>SmoothedValue\<close>. The spec says of them: parameter writes
  outside the bounds are clamped to the boundary; recursive sample writes are clamped
  to [-1, 1]; Waveform is {Sine, Square, Saw, Triangle} by index 0..3; PitchEnvMode is
  {None, Up, Down}; an AudioParameter holds a value with atomic set and get; a
  SmoothedValue is (target, current, coefficient) and \<open>getNext()\<close> advances current
  toward target by coefficient.
\<close>

definition clamp :: "real \<Rightarrow> real \<Rightarrow> real \<Rightarrow> real" where
  \<comment> \<open>Modelled from the spec: \<open>clamp(v, lo, hi)\<close> of the absent \<open>Common.h\<close>, the value clamped to the boundary\<close>
  "clamp v lo hi = (if v < lo then lo else if hi < v then hi else v)"

definition clampSample :: "real \<Rightarrow> real" where
  \<comment> \<open>Modelled from the spec: \<open>clampSample\<close> of the absent \<open>Common.h\<close>, a sample clamped to [-1, 1]\<close>
  "clampSample x = clamp x (-1) 1"

definition TWO_PI :: real where
  \<comment> \<open>Modelled from the spec: the constant of the absent \<open>Common.h\<close>\<close>
  "TWO_PI = 2 * pi"

datatype Waveform = Sine | Square | Saw | Triangle

definition Waveform_of :: "int \<Rightarrow> Waveform option" where
  \<comment> \<open>the enumerator with the given tag, if there is one\<close>
  "Waveform_of tag =
     (if tag = 0 then Some Sine else if tag = 1 then Some Square
      else if tag = 2 then Some Saw else if tag = 3 then Some Triangle else None)"

datatype PitchEnvelopeMode = NoEnv | Up | Down

record SmoothedValue =
  target :: real
  current :: real
  coefficient :: real

definition setTarget :: "real \<Rightarrow> SmoothedValue \<Rightarrow> SmoothedValue" where
  \<comment> \<open>Modelled from the spec: \<open>SmoothedValue::setTarget\<close> of the absent \<open>Common.h\<close>\<close>
  "setTarget t s = s\<lparr>target := t\<rparr>"

definition getNext :: "SmoothedValue \<Rightarrow> real \<times> SmoothedValue" where
  \<comment> \<open>Modelled from the spec: \<open>SmoothedValue::getNext\<close> of the absent \<open>Common.h\<close>, current advanced toward target by coefficient\<close>
  "getNext s =
     (let c = current s + coefficient s * (target s - current s)
      in (c, s\<lparr>current := c\<rparr>))"

section \<open>Chamber reverb (DSP/Reverb.h, chamber Reverb.cpp)\<close>

definition ANTI_DENORMAL :: real where
  "ANTI_DENORMAL = 1 / 10 ^ 20"

record AllpassFilter =
  ap_buffer :: "real list"
  ap_writePos :: int
  ap_delaySamples :: int
  ap_feedback :: real

definition AllpassFilter_process :: "AllpassFilter \<Rightarrow> real \<Rightarrow> (real \<times> AllpassFilter) option" where
  "AllpassFilter_process f input = do {
     readPos \<leftarrow> cmod (ap_writePos f - ap_delaySamples f + int (length (ap_buffer f)))
                     (int (length (ap_buffer f)));
     delayed \<leftarrow> rd (ap_buffer f) readPos;
     let output = - input + delayed + ap_feedback f * (input - delayed);
     buffer' \<leftarrow> wr (ap_buffer f) (ap_writePos f)
                  (clampSample (input + ap_feedback f * delayed) + ANTI_DENORMAL);
     writePos' \<leftarrow> cmod (ap_writePos f + 1) (int (length (ap_buffer f)));
     Some (output, f\<lparr>ap_buffer := buffer', ap_writePos := writePos'\<rparr>)
   }"

record DampedCombFilter =
  dc_sampleRate :: int
  dc_buffer :: "real list"
  dc_writePos :: int
  dc_delaySamples :: int
  dc_feedback :: real
  dc_damping :: real
  dc_damperState :: real
  dc_modDepthSamples :: real
  dc_modRate :: real
  dc_modPhase :: real

definition comb_setFeedback :: "real \<Rightarrow> DampedCombFilter \<Rightarrow> DampedCombFilter" where
  "comb_setFeedback fb c = c\<lparr>dc_feedback := fb\<rparr>"

definition comb_setDamping :: "real \<Rightarrow> DampedCombFilter \<Rightarrow> DampedCombFilter" where
  "comb_setDamping damp c = c\<lparr>dc_damping := damp\<rparr>"

definition DampedCombFilter_process ::
  "DampedCombFilter \<Rightarrow> real \<Rightarrow> (real \<times> DampedCombFilter) option" where
  "DampedCombFilter_process c input = do {
     let modOffset = dc_modDepthSamples c * sin (dc_modPhase c);
     let phase1 = dc_modPhase c + TWO_PI * dc_modRate c / real_of_int (dc_sampleRate c);
     let modPhase' = (if phase1 > TWO_PI then phase1 - TWO_PI else phase1);
     let n = int (length (dc_buffer c));
     let pos0 = real_of_int (dc_writePos c) - real_of_int (dc_delaySamples c) + modOffset;
     let readPosFloat = (if pos0 < 0 then pos0 + real_of_int n else pos0);
     readPosInt \<leftarrow> cmod (to_int readPosFloat) n;
     readPosNext \<leftarrow> cmod (readPosInt + 1) n;
     let frac = readPosFloat - real_of_int \<lfloor>readPosFloat\<rfloor>;
     s1 \<leftarrow> rd (dc_buffer c) readPosInt;
     s2 \<leftarrow> rd (dc_buffer c) readPosNext;
     let delayed = s1 * (1 - frac) + s2 * frac;
     let dampingCoeff = 1 - dc_damping c * 0.5;
     let damperState' =
           clampSample (dampingCoeff * delayed + (1 - dampingCoeff) * dc_damperState c)
             + ANTI_DENORMAL;
     let output = delayed;
     buffer' \<leftarrow> wr (dc_buffer c) (dc_writePos c)
                  (clampSample (input + damperState' * dc_feedback c) + ANTI_DENORMAL);
     writePos' \<leftarrow> cmod (dc_writePos c + 1) n;
     Some (output, c\<lparr>dc_buffer := buffer', dc_writePos := writePos',
                      dc_damperState := damperState', dc_modPhase := modPhase'\<rparr>)
   }"

text \<open>
  \<open>earlyBuffers[j]\<close> and \<open>earlyWritePos[j]\<close> are kept together as the j-th element of
  \<open>earlyTaps\<close>. The three pre-allocated work buffers are resized to at least
  \<open>numSamples\<close> at the start of \<open>process\<close> and overwritten before they are read, so they
  are local values of the model.
\<close>

record ReverbEffect =
  rv_sampleRate :: int
  earlyTaps :: "(real list \<times> int) list"
  earlyLevel :: real
  inputDiffusion :: "AllpassFilter list"
  outputDiffusion :: AllpassFilter
  combFilters :: "DampedCombFilter list"
  rv_size :: real
  rv_dryWet :: real
  rv_damping :: real

definition NUM_EARLY_REFLECTIONS :: nat where
  "NUM_EARLY_REFLECTIONS = 8"

definition NUM_COMB_FILTERS :: nat where
  "NUM_COMB_FILTERS = 6"

definition updateParameters :: "ReverbEffect \<Rightarrow> ReverbEffect" where
  "updateParameters r =
     (let baseFeedback = 0.4 + rv_size r * 0.45
      in r\<lparr>combFilters :=
             map (\<lambda>comb. comb_setDamping (rv_damping r) (comb_setFeedback baseFeedback comb))
                 (combFilters r)\<rparr>)"

definition setSize :: "real \<Rightarrow> ReverbEffect \<Rightarrow> ReverbEffect" where
  "setSize s r = updateParameters (r\<lparr>rv_size := clamp s 0 1\<rparr>)"

definition setDryWet :: "real \<Rightarrow> ReverbEffect \<Rightarrow> ReverbEffect" where
  "setDryWet mix r = r\<lparr>rv_dryWet := clamp mix 0 1\<rparr>"

definition setDamping :: "real \<Rightarrow> ReverbEffect \<Rightarrow> ReverbEffect" where
  "setDamping damp r = updateParameters (r\<lparr>rv_damping := clamp damp 0 1\<rparr>)"

fun early_taps ::
  "real \<Rightarrow> nat \<Rightarrow> (real list \<times> int) list \<Rightarrow> (real \<times> (real list \<times> int) list) option" where
  \<comment> \<open>the loop over \<open>j\<close> of \<open>processEarlyReflections\<close>, from tap \<open>j\<close> on; returns the sum it adds
      to \<open>earlySum\<close>\<close>
  "early_taps x j [] = Some (0, [])"
| "early_taps x j ((buf, wPos) # taps) = do {
     d \<leftarrow> rd buf wPos;
     let attenuation = 0.7 - real j * 0.05;
     buf' \<leftarrow> wr buf wPos (clampSample (x * attenuation));
     wPos' \<leftarrow> cmod (wPos + 1) (int (length buf'));
     (rest, taps') \<leftarrow> early_taps x (Suc j) taps;
     Some (d + rest, (buf', wPos') # taps')
   }"

definition early_sample ::
  "(real list \<times> int) list \<Rightarrow> real \<Rightarrow> (real \<times> (real list \<times> int) list) option" where
  "early_sample taps x = do {
     (earlySum, taps') \<leftarrow> early_taps x 0 taps;
     Some (earlySum / real NUM_EARLY_REFLECTIONS, taps')
   }"

definition processEarlyReflections ::
  "ReverbEffect \<Rightarrow> real list \<Rightarrow> (real list \<times> ReverbEffect) option" where
  "processEarlyReflections r input = do {
     (out, taps') \<leftarrow> for_each early_sample (earlyTaps r) input;
     Some (out, r\<lparr>earlyTaps := taps'\<rparr>)
   }"

fun allpass_chain :: "AllpassFilter list \<Rightarrow> real \<Rightarrow> (real \<times> AllpassFilter list) option" where
  \<comment> \<open>\<open>for (auto& allpass : inputDiffusion) x = allpass.process(x)\<close>\<close>
  "allpass_chain [] x = Some (x, [])"
| "allpass_chain (f # fs) x = do {
     (y, f') \<leftarrow> AllpassFilter_process f x;
     (z, fs') \<leftarrow> allpass_chain fs y;
     Some (z, f' # fs')
   }"

fun comb_bank :: "DampedCombFilter list \<Rightarrow> real \<Rightarrow> (real \<times> DampedCombFilter list) option" where
  \<comment> \<open>\<open>for (auto& comb : combFilters) combSum += comb->process(x)\<close>\<close>
  "comb_bank [] x = Some (0, [])"
| "comb_bank (c # cs) x = do {
     (y, c') \<leftarrow> DampedCombFilter_process c x;
     (rest, cs') \<leftarrow> comb_bank cs x;
     Some (y + rest, c' # cs')
   }"

definition comb_sample :: "DampedCombFilter list \<Rightarrow> real \<Rightarrow> (real \<times> DampedCombFilter list) option" where
  "comb_sample cs x = do {
     (combSum, cs') \<leftarrow> comb_bank cs x;
     Some (combSum / real NUM_COMB_FILTERS, cs')
   }"

fun mix :: "real \<Rightarrow> real \<Rightarrow> real list \<Rightarrow> real list \<Rightarrow> real list \<Rightarrow> real list option" where
  \<comment> \<open>the last loop of \<open>process\<close>: \<open>mix lvl dw early comb input\<close>\<close>
  "mix lvl dw early comb [] = Some []"
| "mix lvl dw (e # early) (c # comb) (x # input) = do {
     let wet = e * lvl + c;
     ys \<leftarrow> mix lvl dw early comb input;
     Some ((x * (1 - dw) + wet * dw) # ys)
   }"
| "mix lvl dw early comb (x # input) = None"

definition process :: "ReverbEffect \<Rightarrow> real list \<Rightarrow> (real list \<times> ReverbEffect) option" where
  \<comment> \<open>\<open>process(input, output, numSamples)\<close> with \<open>numSamples = length input\<close>; returns \<open>output\<close>\<close>
  "process r input = do {
     (earlyBuffer, r1) \<leftarrow> processEarlyReflections r input;
     (diffusedBuffer, diff') \<leftarrow> for_each allpass_chain (inputDiffusion r1) input;
     (combOutputBuffer, combs') \<leftarrow> for_each comb_sample (combFilters r1) diffusedBuffer;
     (combOutputBuffer', out') \<leftarrow>
        for_each AllpassFilter_process (outputDiffusion r1) combOutputBuffer;
     output \<leftarrow> mix (earlyLevel r1) (rv_dryWet r1) earlyBuffer combOutputBuffer' input;
     Some (output, r1\<lparr>inputDiffusion := diff', combFilters := combs', outputDiffusion := out'\<rparr>)
   }"

section \<open>Freeverb reverb (Freeverb Reverb.cpp and its header)\<close>

record CombFilter =
  cf_buffer :: "real list"
  cf_bufferSize :: int
  cf_index :: int
  cf_filterStore :: real


record FvAllpassFilter =
  fa_buffer :: "real list"
  fa_bufferSize :: int
  fa_index :: int


record Freeverb =
  fv_sampleRate :: int
  combL :: "CombFilter list"
  combR :: "CombFilter list"
  allpassL :: "FvAllpassFilter list"
  allpassR :: "FvAllpassFilter list"
  roomSize :: real
  fv_damping :: real
  wet :: real
  wet1 :: real
  wet2 :: real
  dry :: real
  width :: real
  fv_feedback :: real
  damp1 :: real
  damp2 :: real

definition SCALE_DAMP :: real where "SCALE_DAMP = 0.4"
definition SCALE_ROOM :: real where "SCALE_ROOM = 0.28"
definition OFFSET_ROOM :: real where "OFFSET_ROOM = 0.7"

definition updateCoefficients :: "Freeverb \<Rightarrow> Freeverb" where
  "updateCoefficients r =
     (let feedback0 = roomSize r * SCALE_ROOM + OFFSET_ROOM;
          feedback = (if feedback0 > 0.98 then 0.98 else feedback0);
          d1 = fv_damping r * SCALE_DAMP;
          d2 = 1 - d1
      in r\<lparr>fv_feedback := feedback, damp1 := d1, damp2 := d2,
            wet1 := wet r * (width r / 2 + 0.5),
            wet2 := wet r * ((1 - width r) / 2)\<rparr>)"

definition Freeverb_setSize :: "real \<Rightarrow> Freeverb \<Rightarrow> Freeverb" where
  "Freeverb_setSize sz r = updateCoefficients (r\<lparr>roomSize := clamp sz 0 1\<rparr>)"


definition Freeverb_setDamping :: "real \<Rightarrow> Freeverb \<Rightarrow> Freeverb" where
  "Freeverb_setDamping damp r = updateCoefficients (r\<lparr>fv_damping := clamp damp 0 1\<rparr>)"

definition Freeverb_setWidth :: "real \<Rightarrow> Freeverb \<Rightarrow> Freeverb" where
  "Freeverb_setWidth w r = updateCoefficients (r\<lparr>width := clamp w 0 1\<rparr>)"





section \<open>DSP primitives whose sources are absent\<close>

text \<open>
  Modelled from the spec: \<open>DSP/Oscillator.h\<close>, \<open>DSP/LFO.h\<close>, \<open>DSP/Envelope.h\<close>,
  \<open>DSP/Filter.h\<close> and \<open>DSP/Delay.h\<close> are not among the sources. The records hold the state
  the spec's data model names; the setters store their argument, clamped where the spec
  gives a range (cutoff to [20, SR/2 * 0.9], resonance and delay feedback to [0, 0.95],
  delay time to [0.001, 2.0], delay mix to [0, 1]); \<open>trigger\<close> enters Attack and
  \<open>release\<close> enters Release from the current level, a release while Idle being a no-op;
  the DC blocker is y[n] = x[n] - x[n-1] + 0.995 * y[n-1]. The functions that produce one
  sample (\<open>generateSample\<close>, \<open>processSample\<close> and the per-sample steps of
  \<open>LFO::generate\<close>, \<open>Envelope::generate\<close> and \<open>DelayEffect::process\<close>) are not
  fixed by the spec to the last detail: they are parameters, the record \<open>primitives\<close>.
\<close>

record Oscillator =
  osc_phase :: real
  osc_frequency :: real
  osc_waveform :: int

definition osc_setFrequency :: "real \<Rightarrow> Oscillator \<Rightarrow> Oscillator" where
  \<comment> \<open>Modelled from the spec: \<open>Oscillator::setFrequency\<close> of the absent \<open>DSP/Oscillator.h\<close>\<close>
  "osc_setFrequency f osc = osc\<lparr>osc_frequency := f\<rparr>"

definition osc_setWaveform :: "int \<Rightarrow> Oscillator \<Rightarrow> Oscillator" where
  \<comment> \<open>Modelled from the spec: \<open>Oscillator::setWaveform\<close> of the absent \<open>DSP/Oscillator.h\<close>; the argument is the tag of the \<open>Waveform\<close> value passed\<close>
  "osc_setWaveform w osc = osc\<lparr>osc_waveform := w\<rparr>"

definition resetPhase :: "Oscillator \<Rightarrow> Oscillator" where
  \<comment> \<open>Modelled from the spec: \<open>Oscillator::resetPhase\<close> of the absent \<open>DSP/Oscillator.h\<close>\<close>
  "resetPhase osc = osc\<lparr>osc_phase := 0\<rparr>"

record LFO =
  lfo_phase :: real
  lfo_frequency :: real
  lfo_depth :: real
  lfo_waveform :: int

definition lfo_setFrequency :: "real \<Rightarrow> LFO \<Rightarrow> LFO" where
  \<comment> \<open>Modelled from the spec: \<open>LFO::setFrequency\<close> of the absent \<open>DSP/LFO.h\<close>\<close>
  "lfo_setFrequency f l = l\<lparr>lfo_frequency := f\<rparr>"

definition lfo_setDepth :: "real \<Rightarrow> LFO \<Rightarrow> LFO" where
  \<comment> \<open>Modelled from the spec: \<open>LFO::setDepth\<close> of the absent \<open>DSP/LFO.h\<close>\<close>
  "lfo_setDepth d l = l\<lparr>lfo_depth := d\<rparr>"

definition lfo_setWaveform :: "int \<Rightarrow> LFO \<Rightarrow> LFO" where
  \<comment> \<open>Modelled from the spec: \<open>LFO::setWaveform\<close> of the absent \<open>DSP/LFO.h\<close>\<close>
  "lfo_setWaveform w l = l\<lparr>lfo_waveform := w\<rparr>"

datatype Stage = Idle | Attack | Sustain | Release

record Envelope =
  env_stage :: Stage
  env_level :: real
  env_attack :: real
  env_release :: real

definition setAttack :: "real \<Rightarrow> Envelope \<Rightarrow> Envelope" where
  \<comment> \<open>Modelled from the spec: \<open>Envelope::setAttack\<close> of the absent \<open>DSP/Envelope.h\<close>\<close>
  "setAttack seconds env = env\<lparr>env_attack := seconds\<rparr>"

definition setRelease :: "real \<Rightarrow> Envelope \<Rightarrow> Envelope" where
  \<comment> \<open>Modelled from the spec: \<open>Envelope::setRelease\<close> of the absent \<open>DSP/Envelope.h\<close>\<close>
  "setRelease seconds env = env\<lparr>env_release := seconds\<rparr>"

definition env_trigger :: "Envelope \<Rightarrow> Envelope" where
  \<comment> \<open>Modelled from the spec: \<open>Envelope::trigger\<close> of the absent \<open>DSP/Envelope.h\<close>, Attack from the current level\<close>
  "env_trigger env = env\<lparr>env_stage := Attack\<rparr>"

definition env_release_gate :: "Envelope \<Rightarrow> Envelope" where
  \<comment> \<open>Modelled from the spec: \<open>Envelope::release\<close> of the absent \<open>DSP/Envelope.h\<close>, Release from the current level, a no-op while Idle\<close>
  "env_release_gate env = (if env_stage env = Idle then env else env\<lparr>env_stage := Release\<rparr>)"

record LowPassFilter =
  lp_sampleRate :: int
  lp_cutoff :: real
  lp_resonance :: real
  lp_y1 :: real
  lp_y2 :: real

definition setCutoff :: "real \<Rightarrow> LowPassFilter \<Rightarrow> LowPassFilter" where
  \<comment> \<open>Modelled from the spec: \<open>LowPassFilter::setCutoff\<close> of the absent \<open>DSP/Filter.h\<close>, clamped to [20, SR/2 * 0.9]\<close>
  "setCutoff fc f = f\<lparr>lp_cutoff := clamp fc 20 (real_of_int (lp_sampleRate f) / 2 * 0.9)\<rparr>"

definition getCutoff :: "LowPassFilter \<Rightarrow> real" where
  \<comment> \<open>Modelled from the spec: \<open>LowPassFilter::getCutoff\<close> of the absent \<open>DSP/Filter.h\<close>\<close>
  "getCutoff f = lp_cutoff f"

definition setResonance :: "real \<Rightarrow> LowPassFilter \<Rightarrow> LowPassFilter" where
  \<comment> \<open>Modelled from the spec: \<open>LowPassFilter::setResonance\<close> of the absent \<open>DSP/Filter.h\<close>, clamped to [0, 0.95]\<close>
  "setResonance q f = f\<lparr>lp_resonance := clamp q 0 0.95\<rparr>"

record DelayEffect =
  dl_buffer :: "real list"
  dl_writePos :: int
  dl_delayTime :: real
  dl_feedback :: real
  dl_dryWet :: real

definition dl_setDelayTime :: "real \<Rightarrow> DelayEffect \<Rightarrow> DelayEffect" where
  \<comment> \<open>Modelled from the spec: \<open>DelayEffect::setDelayTime\<close> of the absent \<open>DSP/Delay.h\<close>, clamped to [0.001, 2.0]\<close>
  "dl_setDelayTime t d = d\<lparr>dl_delayTime := clamp t 0.001 2\<rparr>"

definition dl_setFeedback :: "real \<Rightarrow> DelayEffect \<Rightarrow> DelayEffect" where
  \<comment> \<open>Modelled from the spec: \<open>DelayEffect::setFeedback\<close> of the absent \<open>DSP/Delay.h\<close>, clamped to [0, 0.95]\<close>
  "dl_setFeedback g d = d\<lparr>dl_feedback := clamp g 0 0.95\<rparr>"

definition dl_setDryWet :: "real \<Rightarrow> DelayEffect \<Rightarrow> DelayEffect" where
  \<comment> \<open>Modelled from the spec: \<open>DelayEffect::setDryWet\<close> of the absent \<open>DSP/Delay.h\<close>, in [0, 1]\<close>
  "dl_setDryWet m d = d\<lparr>dl_dryWet := clamp m 0 1\<rparr>"

record DCBlocker =
  dcb_x1 :: real
  dcb_y1 :: real

definition dcb_sample :: "DCBlocker \<Rightarrow> real \<Rightarrow> real \<times> DCBlocker" where
  \<comment> \<open>Modelled from the spec: one step of \<open>DCBlocker::process\<close> of the absent \<open>DSP/Filter.h\<close>, y[n] = x[n] - x[n-1] + 0.995 * y[n-1]\<close>
  "dcb_sample b x = (let y = x - dcb_x1 b + 0.995 * dcb_y1 b in (y, \<lparr>dcb_x1 = x, dcb_y1 = y\<rparr>))"

record primitives =
  generateSample :: "Oscillator \<Rightarrow> real \<times> Oscillator"
  lfo_sample :: "LFO \<Rightarrow> real \<times> LFO"
  env_sample :: "Envelope \<Rightarrow> real \<times> Envelope"
  processSample :: "LowPassFilter \<Rightarrow> real \<Rightarrow> real \<times> LowPassFilter"
  delay_sample :: "DelayEffect \<Rightarrow> real \<Rightarrow> real \<times> DelayEffect"

fun run_each :: "('s \<Rightarrow> 'a \<Rightarrow> 'b \<times> 's) \<Rightarrow> 's \<Rightarrow> 'a list \<Rightarrow> 'b list \<times> 's" where
  \<comment> \<open>\<open>for_each\<close> for a step that cannot fail\<close>
  "run_each step s [] = ([], s)"
| "run_each step s (x # xs) =
     (case step s x of (y, s') \<Rightarrow> (case run_each step s' xs of (ys, s'') \<Rightarrow> (y # ys, s'')))"

section \<open>Audio engine (Audio/AudioEngine.h, AudioEngine.cpp)\<close>

text \<open>
  The five work buffers have \<open>bufferSize\<close> elements from the constructor on and are
  overwritten before they are read; the model keeps their size only, and a block of more
  than \<open>bufferSize\<close> frames, which the loops would write past the end of the buffers, is
  \<open>None\<close>. The member \<open>filter\<close> is named \<open>lpFilter\<close>.
\<close>

record AudioEngine =
  sampleRate :: int
  bufferSize :: nat
  oscillator :: Oscillator
  lfo :: LFO
  envelope :: Envelope
  lpFilter :: LowPassFilter
  dcBlocker :: DCBlocker
  delay :: DelayEffect
  reverb :: ReverbEffect
  volume :: real
  baseFrequency :: real
  pitchEnvMode :: PitchEnvelopeMode
  currentFrequency :: real
  frequencySmooth :: SmoothedValue

definition osc_step ::
  "primitives \<Rightarrow> SmoothedValue \<times> real \<times> Oscillator \<Rightarrow> real \<times> SmoothedValue \<times> real \<times> Oscillator" where
  \<comment> \<open>body of the oscillator loop, on \<open>(frequencySmooth, currentFrequency, oscillator)\<close>\<close>
  "osc_step P = (\<lambda>(fs, cf, osc).
     (case getNext fs of (f, fs') \<Rightarrow>
        (case generateSample P (osc_setFrequency f osc) of (y, osc') \<Rightarrow> (y, fs', f, osc'))))"

definition filter_step :: "primitives \<Rightarrow> real \<Rightarrow> LowPassFilter \<Rightarrow> real \<times> real \<Rightarrow> real \<times> LowPassFilter" where
  \<comment> \<open>body of the filter loop, on the pair \<open>(lfoBuffer[i], oscBuffer[i])\<close>\<close>
  "filter_step P baseCutoff f = (\<lambda>(l, x).
     (let modCutoff = clamp (baseCutoff * 2 powr (l * 2)) 100 8000
      in processSample P (setCutoff modCutoff f) x))"

definition gate :: "real \<times> real \<Rightarrow> real" where
  \<comment> \<open>body of the envelope loop, on the pair \<open>(filterBuffer[i], envBuffer[i])\<close>\<close>
  "gate = (\<lambda>(x, env). if env < 0.001 then 0 else x * env)"

definition interleave :: "real \<Rightarrow> real list \<Rightarrow> real list" where
  \<comment> \<open>the last loop of \<open>process\<close>: volume, clamp, the same sample left and right\<close>
  "interleave vol buf = concat (map (\<lambda>x. let sample = clamp (x * vol) (-1) 1 in [sample, sample]) buf)"

definition AudioEngine_process ::
  "primitives \<Rightarrow> AudioEngine \<Rightarrow> nat \<Rightarrow> (real list \<times> AudioEngine) option" where
  \<comment> \<open>\<open>process(output, numFrames)\<close>; returns the \<open>2 * numFrames\<close> values written to \<open>output\<close>\<close>
  "AudioEngine_process P e numFrames =
     (if numFrames > bufferSize e then None
      else
        (case generate (osc_step P)
                (setTarget (baseFrequency e) (frequencySmooth e), currentFrequency e, oscillator e)
                numFrames of (oscBuffer, fs', cf', osc') \<Rightarrow>
        (case generate (lfo_sample P) (lfo e) numFrames of (lfoBuffer, lfo') \<Rightarrow>
        (case generate (env_sample P) (envelope e) numFrames of (envBuffer, env') \<Rightarrow>
        (let baseCutoff = getCutoff (lpFilter e) in
        (case run_each (filter_step P baseCutoff) (lpFilter e) (zip lfoBuffer oscBuffer) of
           (filterBuffer, flt') \<Rightarrow>
        (let flt'' = setCutoff baseCutoff flt';
             gated = map gate (zip filterBuffer envBuffer) in
        (case run_each (delay_sample P) (delay e) gated of (delayBuffer, dly') \<Rightarrow>
        (case process (reverb e) delayBuffer of
           None \<Rightarrow> None
         | Some (reverbed, rev') \<Rightarrow>
        (case run_each dcb_sample (dcBlocker e) reverbed of (blocked, dcb') \<Rightarrow>
           Some (interleave (volume e) blocked,
                 e\<lparr>oscillator := osc', lfo := lfo', envelope := env', lpFilter := flt'',
                   dcBlocker := dcb', delay := dly', reverb := rev',
                   currentFrequency := cf', frequencySmooth := fs'\<rparr>)))))))))))"

definition trigger :: "AudioEngine \<Rightarrow> AudioEngine" where
  "trigger e = e\<lparr>oscillator := resetPhase (oscillator e), envelope := env_trigger (envelope e)\<rparr>"

definition release :: "AudioEngine \<Rightarrow> AudioEngine" where
  "release e = e\<lparr>envelope := env_release_gate (envelope e)\<rparr>"

definition cyclePitchEnvelope :: "AudioEngine \<Rightarrow> string \<times> AudioEngine" where
  "cyclePitchEnvelope e =
     (let next = (case pitchEnvMode e of NoEnv \<Rightarrow> Up | Up \<Rightarrow> Down | Down \<Rightarrow> NoEnv)
      in ((case next of NoEnv \<Rightarrow> ''none'' | Up \<Rightarrow> ''up'' | Down \<Rightarrow> ''down''),
          e\<lparr>pitchEnvMode := next\<rparr>))"

definition setVolume :: "real \<Rightarrow> AudioEngine \<Rightarrow> AudioEngine" where
  "setVolume vol e = e\<lparr>volume := clamp vol 0 1\<rparr>"

definition setFrequency :: "real \<Rightarrow> AudioEngine \<Rightarrow> AudioEngine" where
  "setFrequency freq e = e\<lparr>baseFrequency := clamp freq 20 20000\<rparr>"

definition setWaveform :: "int \<Rightarrow> AudioEngine \<Rightarrow> AudioEngine" where
  \<comment> \<open>\<open>setWaveform(int index)\<close>: \<open>setWaveform(static_cast<Waveform>(index % 4))\<close>\<close>
  "setWaveform index e = e\<lparr>oscillator := osc_setWaveform (index smod 4) (oscillator e)\<rparr>"

definition setAttackTime :: "real \<Rightarrow> AudioEngine \<Rightarrow> AudioEngine" where
  "setAttackTime seconds e = e\<lparr>envelope := setAttack seconds (envelope e)\<rparr>"

definition setReleaseTime :: "real \<Rightarrow> AudioEngine \<Rightarrow> AudioEngine" where
  "setReleaseTime seconds e = e\<lparr>envelope := setRelease seconds (envelope e)\<rparr>"

definition setLfoRate :: "real \<Rightarrow> AudioEngine \<Rightarrow> AudioEngine" where
  "setLfoRate rate e = e\<lparr>lfo := lfo_setFrequency rate (lfo e)\<rparr>"

definition setLfoDepth :: "real \<Rightarrow> AudioEngine \<Rightarrow> AudioEngine" where
  "setLfoDepth depth e = e\<lparr>lfo := lfo_setDepth depth (lfo e)\<rparr>"

definition setLfoWaveform :: "int \<Rightarrow> AudioEngine \<Rightarrow> AudioEngine" where
  \<comment> \<open>\<open>setLfoWaveform(int index)\<close>\<close>
  "setLfoWaveform index e = e\<lparr>lfo := lfo_setWaveform (index smod 4) (lfo e)\<rparr>"

definition setFilterCutoff :: "real \<Rightarrow> AudioEngine \<Rightarrow> AudioEngine" where
  "setFilterCutoff freq e = e\<lparr>lpFilter := setCutoff freq (lpFilter e)\<rparr>"

definition setFilterResonance :: "real \<Rightarrow> AudioEngine \<Rightarrow> AudioEngine" where
  "setFilterResonance res e = e\<lparr>lpFilter := setResonance res (lpFilter e)\<rparr>"

definition setDelayTime :: "real \<Rightarrow> AudioEngine \<Rightarrow> AudioEngine" where
  "setDelayTime seconds e = e\<lparr>delay := dl_setDelayTime seconds (delay e)\<rparr>"

definition setDelayFeedback :: "real \<Rightarrow> AudioEngine \<Rightarrow> AudioEngine" where
  "setDelayFeedback feedback e = e\<lparr>delay := dl_setFeedback feedback (delay e)\<rparr>"

definition setDelayMix :: "real \<Rightarrow> AudioEngine \<Rightarrow> AudioEngine" where
  "setDelayMix m e = e\<lparr>delay := dl_setDryWet m (delay e)\<rparr>"

definition setReverbSize :: "real \<Rightarrow> AudioEngine \<Rightarrow> AudioEngine" where
  "setReverbSize sz e = e\<lparr>reverb := setSize sz (reverb e)\<rparr>"

definition setReverbMix :: "real \<Rightarrow> AudioEngine \<Rightarrow> AudioEngine" where
  "setReverbMix m e = e\<lparr>reverb := setDryWet m (reverb e)\<rparr>"

definition setReverbDamping :: "real \<Rightarrow> AudioEngine \<Rightarrow> AudioEngine" where
  "setReverbDamping damping e = e\<lparr>reverb := setDamping damping (reverb e)\<rparr>"

definition setPitchEnvelopeMode :: "PitchEnvelopeMode \<Rightarrow> AudioEngine \<Rightarrow> AudioEngine" where
  "setPitchEnvelopeMode mode e = e\<lparr>pitchEnvMode := mode\<rparr>"

definition getVolume :: "AudioEngine \<Rightarrow> real" where
  "getVolume e = volume e"

definition getFrequency :: "AudioEngine \<Rightarrow> real" where
  "getFrequency e = baseFrequency e"

definition getPitchEnvelopeMode :: "AudioEngine \<Rightarrow> PitchEnvelopeMode" where
  "getPitchEnvelopeMode e = pitchEnvMode e"

section \<open>Control surface (Hardware/GPIOController.h, GPIOController.cpp)\<close>

datatype Bank = A | B

record Parameters =
  p_volume :: real
  p_filterFreq :: real
  p_filterRes :: real
  p_delayFeedback :: real
  p_reverbMix :: real
  p_release :: real
  p_delayTime :: real
  p_reverbSize :: real
  p_oscWaveform :: int
  p_lfoWaveform :: int

definition default_Parameters :: Parameters where
  \<comment> \<open>the default member initialisers of \<open>struct Parameters\<close>\<close>
  "default_Parameters =
     \<lparr>p_volume = 0.7, p_filterFreq = 2000, p_filterRes = 1, p_delayFeedback = 0.5,
      p_reverbMix = 0.35, p_release = 0.5, p_delayTime = 0.2, p_reverbSize = 0.5,
      p_oscWaveform = 0, p_lfoWaveform = 0\<rparr>"

record GPIOController =
  engine :: AudioEngine
  running :: bool
  currentBank :: Bank
  shiftPressed :: bool
  params :: Parameters

definition GPIOController_new :: "AudioEngine \<Rightarrow> GPIOController" where
  \<comment> \<open>the constructor\<close>
  "GPIOController_new e =
     \<lparr>engine = e, running = False, currentBank = A, shiftPressed = False,
      params = default_Parameters\<rparr>"

definition bankAParams :: "string list" where
  "bankAParams = [''volume'', ''filter_freq'', ''filter_res'', ''delay_feedback'', ''reverb_mix'']"

definition bankBParams :: "string list" where
  "bankBParams = [''release'', ''delay_time'', ''reverb_size'', ''osc_waveform'', ''lfo_waveform'']"

definition handleEncoder :: "int \<Rightarrow> int \<Rightarrow> GPIOController \<Rightarrow> GPIOController option" where
  \<comment> \<open>\<open>handleEncoder(encoderIndex, direction)\<close>; the log line is left out\<close>
  "handleEncoder encoderIndex direction g = do {
     let bank = currentBank g;
     paramName \<leftarrow> (if bank = A then rd bankAParams encoderIndex else rd bankBParams encoderIndex);
     let p = params g;
     let d = real_of_int direction;
     Some
      (if paramName = ''volume'' then
         (let v = clamp (p_volume p + 0.02 * d) 0 1
          in g\<lparr>params := p\<lparr>p_volume := v\<rparr>, engine := setVolume v (engine g)\<rparr>)
       else if paramName = ''filter_freq'' then
         (let v = clamp (p_filterFreq p + 50 * d) 20 20000
          in g\<lparr>params := p\<lparr>p_filterFreq := v\<rparr>, engine := setFilterCutoff v (engine g)\<rparr>)
       else if paramName = ''filter_res'' then
         (let v = clamp (p_filterRes p + 0.02 * d) 0 0.95
          in g\<lparr>params := p\<lparr>p_filterRes := v\<rparr>, engine := setFilterResonance v (engine g)\<rparr>)
       else if paramName = ''delay_feedback'' then
         (let v = clamp (p_delayFeedback p + 0.02 * d) 0 0.95
          in g\<lparr>params := p\<lparr>p_delayFeedback := v\<rparr>, engine := setDelayFeedback v (engine g)\<rparr>)
       else if paramName = ''reverb_mix'' then
         (let v = clamp (p_reverbMix p + 0.02 * d) 0 1
          in g\<lparr>params := p\<lparr>p_reverbMix := v\<rparr>, engine := setReverbMix v (engine g)\<rparr>)
       else if paramName = ''release'' then
         (let v = clamp (p_release p + 0.1 * d) 0.01 5
          in g\<lparr>params := p\<lparr>p_release := v\<rparr>, engine := setReleaseTime v (engine g)\<rparr>)
       else if paramName = ''delay_time'' then
         (let v = clamp (p_delayTime p + 0.05 * d) 0.001 2
          in g\<lparr>params := p\<lparr>p_delayTime := v\<rparr>, engine := setDelayTime v (engine g)\<rparr>)
       else if paramName = ''reverb_size'' then
         (let v = clamp (p_reverbSize p + 0.02 * d) 0 1
          in g\<lparr>params := p\<lparr>p_reverbSize := v\<rparr>, engine := setReverbSize v (engine g)\<rparr>)
       else if paramName = ''osc_waveform'' then
         (let v = (p_oscWaveform p + direction + 4) smod 4
          in g\<lparr>params := p\<lparr>p_oscWaveform := v\<rparr>, engine := setWaveform v (engine g)\<rparr>)
       else if paramName = ''lfo_waveform'' then
         (let v = (p_lfoWaveform p + direction + 4) smod 4
          in g\<lparr>params := p\<lparr>p_lfoWaveform := v\<rparr>, engine := setLfoWaveform v (engine g)\<rparr>)
       else g)
   }"

definition onTriggerPress :: "GPIOController \<Rightarrow> GPIOController" where
  "onTriggerPress g = g\<lparr>engine := trigger (engine g)\<rparr>"

definition onTriggerRelease :: "GPIOController \<Rightarrow> GPIOController" where
  "onTriggerRelease g = g\<lparr>engine := release (engine g)\<rparr>"

definition onPitchEnvPress :: "GPIOController \<Rightarrow> GPIOController" where
  "onPitchEnvPress g = g\<lparr>engine := snd (cyclePitchEnvelope (engine g))\<rparr>"

definition onShiftPress :: "GPIOController \<Rightarrow> GPIOController" where
  "onShiftPress g = g\<lparr>shiftPressed := True, currentBank := B\<rparr>"

definition onShiftRelease :: "GPIOController \<Rightarrow> GPIOController" where
  "onShiftRelease g = g\<lparr>shiftPressed := False, currentBank := A\<rparr>"

definition getCurrentBank :: "GPIOController \<Rightarrow> Bank" where
  "getCurrentBank g = currentBank g"

section \<open>Sample player (Audio/SamplePlayer.h, SamplePlayer.cpp)\<close>

record SamplePlayer =
  sp_sampleRate :: int
  sampleData :: "real list"
  sampleChannels :: int
  sampleRateOriginal :: int
  playing :: bool
  loop :: bool
  playbackPosition :: nat
  sp_volume :: real

definition isPlaying :: "SamplePlayer \<Rightarrow> bool" where
  "isPlaying s = playing s"

definition isLoaded :: "SamplePlayer \<Rightarrow> bool" where
  "isLoaded s = (sampleData s \<noteq> [])"

definition sp_trigger :: "SamplePlayer \<Rightarrow> SamplePlayer" where
  "sp_trigger s = (if \<not> isLoaded s then s else s\<lparr>playbackPosition := 0, playing := True\<rparr>)"

definition stop :: "SamplePlayer \<Rightarrow> SamplePlayer" where
  "stop s = s\<lparr>playing := False, playbackPosition := 0\<rparr>"

fun copy_frames ::
  "real list \<Rightarrow> bool \<Rightarrow> real \<Rightarrow> nat \<Rightarrow> nat \<Rightarrow> (real list \<times> nat \<times> bool) option" where
  \<comment> \<open>the frame loop of \<open>process\<close> with \<open>k\<close> frames left: \<open>copy_frames data loop vol k pos\<close> returns
      the \<open>2 * k\<close> values written, the position reached, and whether playback was stopped\<close>
  "copy_frames data lp vol 0 pos = Some ([], pos, False)"
| "copy_frames data lp vol (Suc k) pos =
     (if pos \<ge> length data \<and> \<not> lp then Some (replicate (Suc k * 2) 0, pos, True)
      else do {
        let pos0 = (if pos \<ge> length data then 0 else pos);
        left \<leftarrow> rd data (int pos0 + 0);
        right \<leftarrow> rd data (int pos0 + 1);
        (out, pos', stopped) \<leftarrow> copy_frames data lp vol k (pos0 + 2);
        Some (left * vol # right * vol # out, pos', stopped)
      })"

definition SamplePlayer_process :: "SamplePlayer \<Rightarrow> nat \<Rightarrow> (real list \<times> SamplePlayer) option" where
  \<comment> \<open>\<open>process(output, numFrames)\<close>; returns the \<open>2 * numFrames\<close> values written to \<open>output\<close>\<close>
  "SamplePlayer_process s numFrames =
     (if \<not> playing s \<or> \<not> isLoaded s then Some (replicate (numFrames * 2) 0, s)
      else do {
        (out, pos, stopped) \<leftarrow>
          copy_frames (sampleData s) (loop s) (sp_volume s) numFrames (playbackPosition s);
        Some (out, s\<lparr>playing := (if stopped then False else playing s), playbackPosition := pos\<rparr>)
      })"

datatype read_error = OutOfRange nat nat | DivisionByZero

definition read_at :: "real list \<Rightarrow> nat \<Rightarrow> read_error + real" where
  \<comment> \<open>\<open>input[i]\<close>; outside the vector, the error names the index and the vector's size\<close>
  "read_at v i = (if i < length v then Inr (v ! i) else Inl (OutOfRange i (length v)))"

fun resample_channels ::
  "real list \<Rightarrow> nat \<Rightarrow> real \<Rightarrow> nat \<Rightarrow> nat list \<Rightarrow> read_error + real list" where
  \<comment> \<open>the loop over \<open>ch\<close> of \<open>resample\<close>: \<open>resample_channels input srcFrame fr channels chs\<close>\<close>
  "resample_channels input srcFrame fr channels [] = Inr []"
| "resample_channels input srcFrame fr channels (ch # chs) =
     (case read_at input (srcFrame * channels + ch) of
        Inl err \<Rightarrow> Inl err
      | Inr sample1 \<Rightarrow>
     (case read_at input ((srcFrame + 1) * channels + ch) of
        Inl err \<Rightarrow> Inl err
      | Inr sample2 \<Rightarrow>
     (case resample_channels input srcFrame fr channels chs of
        Inl err \<Rightarrow> Inl err
      | Inr rest \<Rightarrow> Inr ((sample1 + fr * (sample2 - sample1)) # rest))))"

fun resample_frames ::
  "real list \<Rightarrow> real \<Rightarrow> nat \<Rightarrow> nat \<Rightarrow> nat list \<Rightarrow> read_error + real list" where
  \<comment> \<open>the loop over \<open>outFrame\<close>: \<open>resample_frames input ratio inputFrames channels outFrames\<close>\<close>
  "resample_frames input ratio inputFrames channels [] = Inr []"
| "resample_frames input ratio inputFrames channels (outFrame # outFrames) =
     (let srcPos = real outFrame / ratio;
          srcFrame0 = nat (to_int srcPos);
          frac0 = srcPos - real srcFrame0;
          clamped = (srcFrame0 + 1 \<ge> inputFrames);
          srcFrame = (if clamped then inputFrames - 1 else srcFrame0);
          frac = (if clamped then 0 else frac0)
      in (case resample_channels input srcFrame frac channels [0..<channels] of
            Inl err \<Rightarrow> Inl err
          | Inr frame \<Rightarrow>
         (case resample_frames input ratio inputFrames channels outFrames of
            Inl err \<Rightarrow> Inl err
          | Inr rest \<Rightarrow> Inr (frame @ rest))))"

definition resample :: "real list \<Rightarrow> int \<Rightarrow> int \<Rightarrow> nat \<Rightarrow> read_error + real list" where
  \<comment> \<open>\<open>resample(input, output, inputRate, outputRate, channels)\<close>; returns \<open>output\<close>. The
      \<open>double\<close> arithmetic is the exact one and the rates are positive. With no input
      frame there is no output frame, and \<open>inputFrames - 1\<close> is not computed.\<close>
  "resample input inputRate outputRate channels =
     (if inputRate = outputRate then Inr input
      else if channels = 0 then Inl DivisionByZero
      else
        (let ratio = real_of_int outputRate / real_of_int inputRate;
             inputFrames = length input div channels;
             outputFrames = nat (to_int (real inputFrames * ratio))
         in resample_frames input ratio inputFrames channels [0..<outputFrames]))"

section \<open>Example states\<close>

text \<open>
  The states the constructors build at 48000 Hz with 256 frames per block, with every
  comb filter's random modulation phase at 0, and stand-ins for the absent primitives.
\<close>

definition example_allpass :: "nat \<Rightarrow> AllpassFilter" where
  \<comment> \<open>\<open>AllpassFilter(n)\<close>\<close>
  "example_allpass n =
     \<lparr>ap_buffer = replicate n 0, ap_writePos = 0, ap_delaySamples = int n, ap_feedback = 0.5\<rparr>"

definition example_comb :: "nat \<Rightarrow> DampedCombFilter" where
  \<comment> \<open>\<open>DampedCombFilter(48000, delayTime)\<close> with \<open>n = int(delayTime * 48000)\<close>, after the
      reverb's \<open>updateParameters()\<close>\<close>
  "example_comb n =
     \<lparr>dc_sampleRate = 48000, dc_buffer = replicate n 0, dc_writePos = 0,
      dc_delaySamples = int n, dc_feedback = 0.625, dc_damping = 0.5, dc_damperState = 0,
      dc_modDepthSamples = 2, dc_modRate = 0.3, dc_modPhase = 0\<rparr>"

definition example_reverb :: ReverbEffect where
  "example_reverb =
     \<lparr>rv_sampleRate = 48000,
      earlyTaps = map (\<lambda>n. (replicate n 0, 0)) [624, 912, 1104, 1392, 1776, 2064, 2448, 2832],
      earlyLevel = 0.15,
      inputDiffusion = [example_allpass 240, example_allpass 427],
      outputDiffusion = example_allpass 321,
      combFilters = map example_comb [1425, 1780, 1972, 2097, 2414, 2740],
      rv_size = 0.5, rv_dryWet = 0.35, rv_damping = 0.5\<rparr>"




definition example_primitives :: primitives where
  "example_primitives =
     \<lparr>generateSample = (\<lambda>osc. (1, osc)),
      lfo_sample = (\<lambda>l. (0, l)),
      env_sample = (\<lambda>env. (1, env)),
      processSample = (\<lambda>f x. (x, f)),
      delay_sample = (\<lambda>d x. (x, d))\<rparr>"

definition example_engine :: AudioEngine where
  "example_engine =
     \<lparr>sampleRate = 48000, bufferSize = 256,
      oscillator = \<lparr>osc_phase = 0, osc_frequency = 440, osc_waveform = 0\<rparr>,
      lfo = \<lparr>lfo_phase = 0, lfo_frequency = 4, lfo_depth = 0, lfo_waveform = 0\<rparr>,
      envelope = \<lparr>env_stage = Idle, env_level = 0, env_attack = 0.01, env_release = 0.5\<rparr>,
      lpFilter = \<lparr>lp_sampleRate = 48000, lp_cutoff = 2000, lp_resonance = 0, lp_y1 = 0, lp_y2 = 0\<rparr>,
      dcBlocker = \<lparr>dcb_x1 = 0, dcb_y1 = 0\<rparr>,
      delay = \<lparr>dl_buffer = replicate 96000 0, dl_writePos = 0, dl_delayTime = 0.3,
                dl_feedback = 0.5, dl_dryWet = 0.3\<rparr>,
      reverb = example_reverb,
      volume = 0.7, baseFrequency = 440, pitchEnvMode = NoEnv, currentFrequency = 440,
      frequencySmooth = \<lparr>target = 440, current = 440, coefficient = 0.02\<rparr>\<rparr>"

definition example_player :: SamplePlayer where
  \<comment> \<open>a loaded player: two stereo frames\<close>
  "example_player =
     \<lparr>sp_sampleRate = 48000, sampleData = [0.5, -0.5, 0.25, -0.25], sampleChannels = 2,
      sampleRateOriginal = 48000, playing = True, loop = False, playbackPosition = 0,
      sp_volume = 1\<rparr>"

section \<open>Lengths of the blocks\<close>



lemma for_each_length: "for_each step s xs = Some (ys, s') \<Longrightarrow> length ys = length xs"
  by (induction xs arbitrary: s ys s') (auto split: option.splits prod.splits)





section \<open>The dry path of the reverbs\<close>






section \<open>Runs of the example states\<close>

lemma example_allpass_process:
  "0 < n \<Longrightarrow> \<exists>y f'. AllpassFilter_process (example_allpass n) x = Some (y, f')"
  by (simp add: AllpassFilter_process_def example_allpass_def cmod_def rd_def wr_def)

lemma example_comb_process:
  "1 < n \<Longrightarrow> \<exists>c'. DampedCombFilter_process (example_comb n) x = Some (0, c')"
  by (simp add: DampedCombFilter_process_def example_comb_def cmod_def rd_def wr_def
      to_int_def Let_def smod_int_alt_def)

text \<open>
  A comb filter does not always return: with the write position at 0 and the modulation
  at its lowest point the read position is -2, and \<open>buffer[readPosInt]\<close> is read at a
  negative index. The theorems about \<open>process\<close> below speak of the runs that return.
\<close>

lemma comb_negative_read:
  assumes "2 < n"
  shows "DampedCombFilter_process ((example_comb n)\<lparr>dc_modPhase := 3 * pi / 2\<rparr>) x = None"
proof -
  have s: "sin (3 * pi / 2) = -1"
    using sin_3over2_pi by (simp add: field_simps)
  have t: "to_int (- 2) = - 2"
    by (simp add: to_int_def)
  have m: "(2 :: int) smod int n = 2"
    using assms by (simp add: smod_int_alt_def)
  have p: "(if - real n - 2 < 0 then - real n - 2 + real n else - real n - 2) = - 2"
    by simp
  show ?thesis
    by (simp add: DampedCombFilter_process_def example_comb_def s Let_def p t cmod_def m rd_def)
qed

lemma example_allpass_chain:
  "\<forall>n\<in>set ns. 0 < n \<Longrightarrow> \<exists>y fs'. allpass_chain (map example_allpass ns) x = Some (y, fs')"
proof (induction ns arbitrary: x)
  case Nil
  then show ?case by simp
next
  case (Cons n ns)
  then have "0 < n" by simp
  from example_allpass_process[OF this, of x] obtain y f'
    where 1: "AllpassFilter_process (example_allpass n) x = Some (y, f')" by blast
  from Cons obtain z fs' where "allpass_chain (map example_allpass ns) y = Some (z, fs')"
    by fastforce
  with 1 show ?case by simp
qed

lemma example_comb_bank:
  "\<forall>n\<in>set ns. 1 < n \<Longrightarrow> \<exists>cs'. comb_bank (map example_comb ns) x = Some (0, cs')"
proof (induction ns)
  case Nil
  then show ?case by simp
next
  case (Cons n ns)
  then have "1 < n" by simp
  from example_comb_process[OF this, of x] obtain c'
    where 1: "DampedCombFilter_process (example_comb n) x = Some (0, c')" by blast
  from Cons obtain cs' where "comb_bank (map example_comb ns) x = Some (0, cs')" by auto
  with 1 show ?case by simp
qed

lemma example_early_taps:
  "\<forall>n\<in>set ns. 0 < n \<Longrightarrow>
   \<exists>taps'. early_taps x j (map (\<lambda>n. (replicate n 0, 0)) ns) = Some (0, taps')"
proof (induction ns arbitrary: j)
  case Nil
  then show ?case by simp
next
  case (Cons n ns)
  then have n: "0 < n" by simp
  from Cons obtain taps' where
    "early_taps x (Suc j) (map (\<lambda>n. (replicate n 0, 0)) ns) = Some (0, taps')" by fastforce
  with n show ?case by (simp add: rd_def wr_def cmod_def)
qed

lemma example_reverb_runs:
  assumes "earlyTaps r = earlyTaps example_reverb"
    and "inputDiffusion r = inputDiffusion example_reverb"
    and "outputDiffusion r = outputDiffusion example_reverb"
    and "combFilters r = combFilters example_reverb"
  shows "\<exists>out r'. process r [x] = Some (out, r')"
proof -
  have e: "earlyTaps r = map (\<lambda>n. (replicate n 0, 0)) [624, 912, 1104, 1392, 1776, 2064, 2448, 2832]"
    and i: "inputDiffusion r = map example_allpass [240, 427]"
    and o: "outputDiffusion r = example_allpass 321"
    and c: "combFilters r = map example_comb [1425, 1780, 1972, 2097, 2414, 2740]"
    using assms by (simp_all add: example_reverb_def)
  have "\<forall>n\<in>set [624, 912, 1104, 1392, 1776, 2064, 2448, 2832::nat]. 0 < n" by simp
  from example_early_taps[OF this, of x 0] obtain taps'
    where 1: "early_taps x 0 (earlyTaps r) = Some (0, taps')" unfolding e by blast
  have "\<forall>n\<in>set [240, 427::nat]. 0 < n" by simp
  from example_allpass_chain[OF this, of x] obtain y fs'
    where 2: "allpass_chain (inputDiffusion r) x = Some (y, fs')" unfolding i by blast
  have "\<forall>n\<in>set [1425, 1780, 1972, 2097, 2414, 2740::nat]. 1 < n" by simp
  from example_comb_bank[OF this, of y] obtain cs'
    where 3: "comb_bank (combFilters r) y = Some (0, cs')" unfolding c by blast
  from example_allpass_process[of 321 0] obtain z f'
    where 4: "AllpassFilter_process (outputDiffusion r) 0 = Some (z, f')" unfolding o by auto
  show ?thesis
    unfolding process_def processEarlyReflections_def early_sample_def comb_sample_def
    using 1 2 3 4 by simp
qed






section \<open>The engine's output\<close>


lemma generate_osc_step:
  "generate (osc_step P) (fs, cf, osc) n = (buf, fs', cf', osc') \<Longrightarrow>
   target fs' = target fs \<and> coefficient fs' = coefficient fs \<and>
   current fs' - target fs = (1 - coefficient fs) ^ n * (current fs - target fs) \<and>
   (0 < n \<longrightarrow> cf' = current fs')"
proof (induction n arbitrary: fs cf osc buf)
  case 0
  then show ?case by simp
next
  case (Suc n)
  obtain f fs1 where g: "getNext fs = (f, fs1)" by (metis surj_pair)
  obtain y osc1 where o: "generateSample P (osc_setFrequency f osc) = (y, osc1)" by (metis surj_pair)
  obtain buf1 where r: "generate (osc_step P) (fs1, f, osc1) n = (buf1, fs', cf', osc')"
    using Suc.prems g o by (auto simp: osc_step_def split: prod.splits)
  from g have 1: "target fs1 = target fs" "coefficient fs1 = coefficient fs"
    "current fs1 = f" "current fs1 - target fs = (1 - coefficient fs) * (current fs - target fs)"
    by (auto simp: getNext_def Let_def algebra_simps)
  from Suc.IH[OF r] 1 have 2: "target fs' = target fs" "coefficient fs' = coefficient fs"
    "current fs' - target fs = (1 - coefficient fs) ^ n * ((1 - coefficient fs) * (current fs - target fs))"
    "0 < n \<longrightarrow> cf' = current fs'"
    by auto
  have "cf' = current fs'"
  proof (cases n)
    case 0
    with r 1 show ?thesis by simp
  next
    case (Suc m)
    with 2 show ?thesis by simp
  qed
  with 2 show ?case by (simp add: mult.assoc)
qed

lemma process_frequency:
  assumes "AudioEngine_process P e n = Some (out, e')"
  shows "current (frequencySmooth e') - baseFrequency e =
           (1 - coefficient (frequencySmooth e)) ^ n * (current (frequencySmooth e) - baseFrequency e) \<and>
         (0 < n \<longrightarrow> currentFrequency e' = current (frequencySmooth e'))"
proof -
  obtain oscBuffer fs' cf' osc' where 1:
    "generate (osc_step P)
       (setTarget (baseFrequency e) (frequencySmooth e), currentFrequency e, oscillator e) n
     = (oscBuffer, fs', cf', osc')"
    by (metis surj_pair)
  from assms 1 have "frequencySmooth e' = fs'" "currentFrequency e' = cf'"
    by (auto simp: AudioEngine_process_def Let_def split: if_splits prod.splits option.splits)
  with generate_osc_step[OF 1] show ?thesis by (simp add: setTarget_def)
qed

lemma process_mode:
  "AudioEngine_process P (e\<lparr>pitchEnvMode := m\<rparr>) n =
   map_option (\<lambda>(out, e'). (out, e'\<lparr>pitchEnvMode := m\<rparr>)) (AudioEngine_process P e n)"
  by (simp add: AudioEngine_process_def Let_def split: prod.splits option.splits)

lemma example_engine_runs:
  assumes "0 < bufferSize e"
    and "earlyTaps (reverb e) = earlyTaps example_reverb"
    and "inputDiffusion (reverb e) = inputDiffusion example_reverb"
    and "outputDiffusion (reverb e) = outputDiffusion example_reverb"
    and "combFilters (reverb e) = combFilters example_reverb"
  shows "\<exists>out e'. AudioEngine_process example_primitives e 1 = Some (out, e')"
proof -
  from example_reverb_runs[OF assms(2-5), of 1] obtain reverbed rev'
    where 1: "process (reverb e) [1] = Some (reverbed, rev')" by blast
  obtain blocked dcb' where 2: "run_each dcb_sample (dcBlocker e) reverbed = (blocked, dcb')"
    by (metis surj_pair)
  show ?thesis
    using assms(1) 1 2
    by (simp add: AudioEngine_process_def example_primitives_def osc_step_def filter_step_def
        gate_def getNext_def Let_def)
qed

section \<open>The sample player's frame loop\<close>

lemma copy_frames_no_loop:
  "even (length data) \<Longrightarrow> even pos \<Longrightarrow>
   copy_frames data False vol n pos =
     Some (map (\<lambda>x. x * vol) (take (2 * min n ((length data - pos) div 2)) (drop pos data))
             @ replicate (2 * (n - min n ((length data - pos) div 2))) 0,
           pos + 2 * min n ((length data - pos) div 2),
           min n ((length data - pos) div 2) < n)"
proof (induction n arbitrary: pos)
  case 0
  then show ?case by simp
next
  case (Suc n)
  show ?case
  proof (cases "length data \<le> pos")
    case True
    then show ?thesis by (simp add: mult.commute)
  next
    case False
    with Suc.prems have lt: "pos + 1 < length data" by presburger
    define m where "m = (length data - (pos + 2)) div 2"
    from lt have h: "(length data - pos) div 2 = Suc m"
      by (simp add: m_def)
    have ev: "even (pos + 2)" using Suc.prems(2) by simp
    have d: "drop pos data = data ! pos # data ! Suc pos # drop (Suc (Suc pos)) data"
      using lt by (simp add: Cons_nth_drop_Suc)
    have ih: "copy_frames data False vol n (Suc (Suc pos)) =
       Some (map (\<lambda>x. x * vol) (take (2 * min n m) (drop (Suc (Suc pos)) data))
             @ replicate (2 * (n - min n m)) 0, Suc (Suc (pos + 2 * min n m)), min n m < n)"
      using Suc.IH[OF Suc.prems(1) ev] by (simp add: m_def)
    have r: "nat (int pos + 1) = Suc pos" by simp
    show ?thesis using False lt by (simp add: rd_def ih h d r)
  qed
qed

section \<open>The claims\<close>

text \<open>
  C1 as stated: for every base frequency f0 and pitch-envelope mode other than None,
  \<open>trigger()\<close> followed by \<open>process\<close> makes the oscillator's frequency start one octave
  away from f0 (at f0 / 2 for mode Up) and ramp to f0 during the attack. On the engine
  as constructed, with \<open>setPitchEnvelopeMode(Up)\<close>, \<open>setFrequency(440)\<close>,
  \<open>setAttackTime(0.1)\<close> and \<open>trigger()\<close>, the first frame is generated at 440 Hz, not
  within 1 Hz of 220 Hz.
\<close>

theorem pitch_envelope_up_no_ramp:
  "AudioEngine_process example_primitives
     (trigger (setAttackTime 0.1 (setFrequency 440 (setPitchEnvelopeMode Up example_engine)))) 1
     \<noteq> None \<and>
   currentFrequency (snd (the (AudioEngine_process example_primitives
     (trigger (setAttackTime 0.1 (setFrequency 440 (setPitchEnvelopeMode Up example_engine)))) 1)))
     = 440 \<and>
   \<not> \<bar>currentFrequency (snd (the (AudioEngine_process example_primitives
     (trigger (setAttackTime 0.1 (setFrequency 440 (setPitchEnvelopeMode Up example_engine)))) 1)))
     - 440 / 2\<bar> \<le> 1"
proof -
  let ?e = "trigger (setAttackTime 0.1 (setFrequency 440 (setPitchEnvelopeMode Up example_engine)))"
  have s: "bufferSize ?e = 256" "reverb ?e = example_reverb" "baseFrequency ?e = 440"
    "frequencySmooth ?e = \<lparr>target = 440, current = 440, coefficient = 0.02\<rparr>"
    by (simp_all add: trigger_def setAttackTime_def setFrequency_def setPitchEnvelopeMode_def
        example_engine_def clamp_def)
  from example_engine_runs[of ?e] s obtain out e'
    where 1: "AudioEngine_process example_primitives ?e 1 = Some (out, e')" by auto
  from process_frequency[OF 1] s have "currentFrequency e' = 440" by simp
  with 1 show ?thesis by simp
qed

text \<open>
  C1, amended: \<open>process\<close> never reads the pitch-envelope mode. For every base frequency
  f0 and every mode, \<open>trigger()\<close> followed by \<open>process\<close> over n frames gives the output and
  the state it gives with mode None (the stored mode apart), and the oscillator's
  frequency is the smoothed base frequency: after n frames its distance to f0 is the
  distance before the block times (1 - coefficient) ^ n, and the frequency of the last
  frame is the smoother's current value. There is no octave ramp.
\<close>

theorem process_pitch_envelope_unused:
  assumes "AudioEngine_process P (trigger (setPitchEnvelopeMode mode e)) n = Some (out, e')"
  shows "AudioEngine_process P (trigger (setPitchEnvelopeMode NoEnv e)) n
           = Some (out, setPitchEnvelopeMode NoEnv e') \<and>
         current (frequencySmooth e') - baseFrequency e =
           (1 - coefficient (frequencySmooth e)) ^ n * (current (frequencySmooth e) - baseFrequency e) \<and>
         (0 < n \<longrightarrow> currentFrequency e' = current (frequencySmooth e'))"
proof -
  have t: "trigger (setPitchEnvelopeMode m e) = (trigger e)\<lparr>pitchEnvMode := m\<rparr>" for m
    by (simp add: trigger_def setPitchEnvelopeMode_def)
  from assms obtain e0 where 0: "AudioEngine_process P (trigger e) n = Some (out, e0)"
    and e': "e' = e0\<lparr>pitchEnvMode := mode\<rparr>"
    unfolding t process_mode by auto
  have "AudioEngine_process P (trigger (setPitchEnvelopeMode NoEnv e)) n
           = Some (out, setPitchEnvelopeMode NoEnv e')"
    unfolding t process_mode using 0 e' by (simp add: setPitchEnvelopeMode_def)
  moreover from process_frequency[OF assms]
  have "current (frequencySmooth e') - baseFrequency e =
           (1 - coefficient (frequencySmooth e)) ^ n * (current (frequencySmooth e) - baseFrequency e) \<and>
         (0 < n \<longrightarrow> currentFrequency e' = current (frequencySmooth e'))"
    by (simp add: trigger_def setPitchEnvelopeMode_def)
  ultimately show ?thesis by blast
qed

theorem process_pitch_envelope_unused_witness:
  "\<exists>out e'. AudioEngine_process example_primitives (trigger (setPitchEnvelopeMode Up example_engine)) 1
       = Some (out, e') \<and>
     AudioEngine_process example_primitives (trigger (setPitchEnvelopeMode NoEnv example_engine)) 1
       = Some (out, setPitchEnvelopeMode NoEnv e') \<and>
     (0::nat) < 1 \<and> currentFrequency e' = 440"
proof -
  let ?e = "trigger (setPitchEnvelopeMode Up example_engine)"
  have s: "bufferSize ?e = 256" "reverb ?e = example_reverb"
    by (simp_all add: trigger_def setPitchEnvelopeMode_def example_engine_def)
  from example_engine_runs[of ?e] s obtain out e'
    where 1: "AudioEngine_process example_primitives ?e 1 = Some (out, e')" by auto
  from process_pitch_envelope_unused[OF 1]
  have "AudioEngine_process example_primitives (trigger (setPitchEnvelopeMode NoEnv example_engine)) 1
       = Some (out, setPitchEnvelopeMode NoEnv e') \<and> currentFrequency e' = 440"
    by (simp add: example_engine_def)
  with 1 show ?thesis by auto
qed



text \<open>
  C3: after \<open>setVolume(v)\<close>, \<open>getVolume()\<close> returns \<open>v\<close> clamped to [0, 1], and after
  \<open>setFrequency(f)\<close>, \<open>getFrequency()\<close> returns \<open>f\<close> clamped to [20, 20000]: a value
  below the range reads back as the lower bound, one above it as the upper bound, and
  the setters return a state for every argument.
\<close>

theorem volume_frequency_readback:
  "getVolume (setVolume v e) = (if v < 0 then 0 else if 1 < v then 1 else v) \<and>
   getFrequency (setFrequency f e) = (if f < 20 then 20 else if 20000 < f then 20000 else f)"
  by (simp add: getVolume_def setVolume_def getFrequency_def setFrequency_def clamp_def)

text \<open>
  C4: \<open>setWaveform(index)\<close> and \<open>setLfoWaveform(index)\<close> are claimed to select the
  waveform whose tag is the index mod 4, a value in {0, 1, 2, 3}, for negative indices
  too. At index -1 the C++ remainder \<open>-1 % 4\<close> is -1: the oscillator and the LFO receive
  the tag -1, which is the tag of no waveform.
\<close>

theorem setWaveform_negative_index:
  "osc_waveform (oscillator (setWaveform (-1) e)) = -1 \<and>
   Waveform_of (osc_waveform (oscillator (setWaveform (-1) e))) = None \<and>
   lfo_waveform (lfo (setLfoWaveform (-1) e)) = -1 \<and>
   Waveform_of (lfo_waveform (lfo (setLfoWaveform (-1) e))) = None"
  by (simp add: setWaveform_def setLfoWaveform_def osc_setWaveform_def lfo_setWaveform_def
      Waveform_of_def smod_int_alt_def)

text \<open>
  C5: from the control surface's default parameters, with shift pressed one +1 tick of
  encoder 1 (index 0) sets \<open>params.release\<close> to 0.6 and writes 0.6 to the engine's release
  time; after shift is released, one +1 tick of encoder 1 sets \<open>params.volume\<close> to 0.72
  and writes 0.72 to the engine's volume, and \<open>params.release\<close> is still 0.6.
\<close>

theorem bank_switch_scenario:
  "do { g2 \<leftarrow> handleEncoder 0 1 (onShiftPress (GPIOController_new e));
        g4 \<leftarrow> handleEncoder 0 1 (onShiftRelease g2);
        Some (p_release (params g2), env_release (envelope (engine g2)),
              p_volume (params g4), getVolume (engine g4), p_release (params g4)) }
   = Some (0.6, 0.6, 0.72, 0.72, 0.6)"
  by (simp add: handleEncoder_def onShiftPress_def onShiftRelease_def GPIOController_new_def
      default_Parameters_def bankAParams_def bankBParams_def rd_def clamp_def Let_def
      setVolume_def setReleaseTime_def setRelease_def getVolume_def)

text \<open>
  C6: pressing shift sets the current bank to B; pressing it again while it is held
  changes nothing; releasing shift sets the current bank to A, whatever the state before.
\<close>

theorem shift_bank:
  "getCurrentBank (onShiftPress g) = B \<and>
   onShiftPress (onShiftPress g) = onShiftPress g \<and>
   getCurrentBank (onShiftRelease g) = A"
  by (simp add: getCurrentBank_def onShiftPress_def onShiftRelease_def)

text \<open>
  C7: in the chamber reverb, after \<open>setSize(s)\<close> the feedback gain of every damped comb
  filter is 0.4 + clamp(s, 0, 1) * 0.45, and this value is below 0.98.
\<close>

theorem setSize_comb_feedback:
  "\<forall>c \<in> set (combFilters (setSize s r)).
     dc_feedback c = 0.4 + clamp s 0 1 * 0.45 \<and> dc_feedback c < 0.98"
  by (auto simp: setSize_def updateParameters_def comb_setFeedback_def comb_setDamping_def
      clamp_def)

theorem setSize_comb_feedback_witness:
  "example_comb 1425 \<lparr>dc_feedback := 0.85\<rparr> \<in> set (combFilters (setSize 2 example_reverb)) \<and>
   dc_feedback (example_comb 1425 \<lparr>dc_feedback := 0.85\<rparr>) = 0.4 + clamp 2 0 1 * 0.45 \<and>
   dc_feedback (example_comb 1425 \<lparr>dc_feedback := 0.85\<rparr>) < 0.98"
proof -
  have m: "example_comb 1425 \<lparr>dc_feedback := 0.85\<rparr> \<in> set (combFilters (setSize 2 example_reverb))"
    by (simp add: setSize_def updateParameters_def comb_setFeedback_def comb_setDamping_def
        clamp_def example_reverb_def example_comb_def Let_def)
  with setSize_comb_feedback[of 2 example_reverb] show ?thesis by blast
qed



text \<open>
  C9 as stated: when the playhead reaches the end of the sample with looping disabled,
  the player stops. A block of two frames on a playing sample of two stereo frames
  copies both frames and returns with the playhead on the end of the sample and the
  player still playing: the loop tests the playhead only before it copies a frame.
\<close>

theorem SamplePlayer_process_end_on_block_boundary:
  "SamplePlayer_process example_player 2 =
     Some ([0.5, -0.5, 0.25, -0.25], example_player\<lparr>playbackPosition := 4\<rparr>) \<and>
   \<not> loop (example_player\<lparr>playbackPosition := 4\<rparr>) \<and>
   playbackPosition (example_player\<lparr>playbackPosition := 4\<rparr>) =
     length (sampleData (example_player\<lparr>playbackPosition := 4\<rparr>)) \<and>
   isPlaying (example_player\<lparr>playbackPosition := 4\<rparr>)"
  by (simp add: SamplePlayer_process_def example_player_def isLoaded_def isPlaying_def rd_def
      eval_nat_numeral)

text \<open>
  C9, amended: \<open>SamplePlayer::process(out, N)\<close> fills the whole block with zeros and
  leaves the player as it is when the player is not playing or no sample is loaded.
  When it plays a loaded sample with looping disabled, it copies the frames left in the
  sample, at most N of them, each sample times the volume, and advances the playhead by
  as much; if the block asks for a frame with the playhead on or past the end, the
  player stops and the remaining frames of the block are zero; if the frames left are
  N or more, as when the sample ends on the last frame of the block, the player keeps
  playing, and a sample that ended there is stopped by the next call, whose block is all
  zeros. The sample data is interleaved stereo and the playhead advances by whole
  frames: both are even.
\<close>

theorem SamplePlayer_process_blocks:
  "(\<not> playing s \<or> \<not> isLoaded s \<longrightarrow> SamplePlayer_process s n = Some (replicate (2 * n) 0, s)) \<and>
   (playing s \<and> isLoaded s \<and> \<not> loop s \<and> even (length (sampleData s)) \<and>
    even (playbackPosition s) \<longrightarrow>
      SamplePlayer_process s n =
        Some (map (\<lambda>x. x * sp_volume s)
                (take (2 * min n ((length (sampleData s) - playbackPosition s) div 2))
                   (drop (playbackPosition s) (sampleData s)))
              @ replicate (2 * (n - min n ((length (sampleData s) - playbackPosition s) div 2))) 0,
              s\<lparr>playing := (n \<le> (length (sampleData s) - playbackPosition s) div 2),
                playbackPosition :=
                  playbackPosition s + 2 * min n ((length (sampleData s) - playbackPosition s) div 2)\<rparr>))"
proof (intro conjI impI)
  assume "\<not> playing s \<or> \<not> isLoaded s"
  then show "SamplePlayer_process s n = Some (replicate (2 * n) 0, s)"
    by (auto simp: SamplePlayer_process_def mult.commute)
next
  assume a: "playing s \<and> isLoaded s \<and> \<not> loop s \<and> even (length (sampleData s)) \<and>
    even (playbackPosition s)"
  then have c: "copy_frames (sampleData s) (loop s) (sp_volume s) n (playbackPosition s) =
     Some (map (\<lambda>x. x * sp_volume s)
             (take (2 * min n ((length (sampleData s) - playbackPosition s) div 2))
                (drop (playbackPosition s) (sampleData s)))
           @ replicate (2 * (n - min n ((length (sampleData s) - playbackPosition s) div 2))) 0,
           playbackPosition s + 2 * min n ((length (sampleData s) - playbackPosition s) div 2),
           min n ((length (sampleData s) - playbackPosition s) div 2) < n)"
    using copy_frames_no_loop[of "sampleData s" "playbackPosition s" "sp_volume s" n] by simp
  have "(if min n ((length (sampleData s) - playbackPosition s) div 2) < n then False else playing s)
        = (n \<le> (length (sampleData s) - playbackPosition s) div 2)"
    using a by auto
  with a c show "SamplePlayer_process s n =
        Some (map (\<lambda>x. x * sp_volume s)
                (take (2 * min n ((length (sampleData s) - playbackPosition s) div 2))
                   (drop (playbackPosition s) (sampleData s)))
              @ replicate (2 * (n - min n ((length (sampleData s) - playbackPosition s) div 2))) 0,
              s\<lparr>playing := (n \<le> (length (sampleData s) - playbackPosition s) div 2),
                playbackPosition :=
                  playbackPosition s + 2 * min n ((length (sampleData s) - playbackPosition s) div 2)\<rparr>)"
    by (simp add: SamplePlayer_process_def)
qed

theorem SamplePlayer_process_blocks_witness:
  "SamplePlayer_process (stop example_player) 4 = Some (replicate (2 * 4) 0, stop example_player) \<and>
   SamplePlayer_process example_player 4 =
     Some ([0.5, -0.5, 0.25, -0.25, 0, 0, 0, 0],
           example_player\<lparr>playing := False, playbackPosition := 4\<rparr>) \<and>
   SamplePlayer_process (example_player\<lparr>playbackPosition := 4\<rparr>) 4 =
     Some ([0, 0, 0, 0, 0, 0, 0, 0], example_player\<lparr>playing := False, playbackPosition := 4\<rparr>)"
proof -
  have 1: "\<not> playing (stop example_player) \<or> \<not> isLoaded (stop example_player)"
    by (simp add: stop_def)
  have 2: "playing example_player \<and> isLoaded example_player \<and> \<not> loop example_player \<and>
    even (length (sampleData example_player)) \<and> even (playbackPosition example_player)"
    by (simp add: example_player_def isLoaded_def)
  have r4: "replicate 4 (0::real) = [0, 0, 0, 0]" and r8: "replicate 8 (0::real) = [0, 0, 0, 0, 0, 0, 0, 0]"
    by (simp_all add: eval_nat_numeral)
  let ?p = "example_player\<lparr>playbackPosition := 4\<rparr>"
  have 3: "playing ?p \<and> isLoaded ?p \<and> \<not> loop ?p \<and>
    even (length (sampleData ?p)) \<and> even (playbackPosition ?p)"
    by (simp add: example_player_def isLoaded_def)
  from SamplePlayer_process_blocks[of "stop example_player" 4] 1
  have "SamplePlayer_process (stop example_player) 4 = Some (replicate (2 * 4) 0, stop example_player)"
    by blast
  moreover from SamplePlayer_process_blocks[of example_player 4] 2
  have "SamplePlayer_process example_player 4 =
     Some ([0.5, -0.5, 0.25, -0.25, 0, 0, 0, 0],
           example_player\<lparr>playing := False, playbackPosition := 4\<rparr>)"
    by (simp add: example_player_def r4 r8)
  moreover from SamplePlayer_process_blocks[of ?p 4] 3
  have "SamplePlayer_process ?p 4 =
     Some ([0, 0, 0, 0, 0, 0, 0, 0], example_player\<lparr>playing := False, playbackPosition := 4\<rparr>)"
    by (simp add: example_player_def r4 r8)
  ultimately show ?thesis by blast
qed

text \<open>
  C10: in \<open>resample\<close>, every index at which the input vector is read is claimed to be below
  the vector's size. Resampling two stereo frames from 24000 Hz to 48000 Hz reads
  \<open>input[4]\<close> of a vector of size 4: at output frame 2 the source frame is clamped to the
  last input frame, and the second sample of the interpolation is read one frame past it.
  The ratio is 2, so the \<open>double\<close> arithmetic of the source is exact here.
\<close>

theorem resample_reads_past_end:
  "resample [1, 2, 3, 4] 24000 48000 2 = Inl (OutOfRange 4 4)"
  by (simp add: resample_def Let_def to_int_def read_at_def upt_conv_Cons)

end
